theory Spec2Isabelle
  imports Complex_Main
begin

section \<open>Python values\<close>

text \<open>
  The loader works on whatever \<^verbatim>\<open>json.loads\<close> returns: \<^verbatim>\<open>None\<close>, booleans, integers,
  floats, strings, lists and string-keyed dictionaries, nested at will. Python does not
  enforce the annotations \<^verbatim>\<open>Dict[str, Any]\<close> and \<^verbatim>\<open>str\<close>, so every field of the model
  below holds such a value as well.

  A float is kept by what the loader can observe of it: whether it is zero (truthiness)
  and which number it is (dictionary keys); \<^verbatim>\<open>0.0\<close> and \<^verbatim>\<open>-0.0\<close> are one value here.
  A dictionary is the list of its items in insertion order, looked up with \<^const>\<open>map_of\<close>.
\<close>

datatype pyfloat = FNaN | FInf bool | FFin rat

datatype pyval =
    PNone
  | PBool bool
  | PInt int
  | PFloat pyfloat
  | PStr string
  | PList "pyval list"
  | PDict "(string \<times> pyval) list"

text \<open>
  The exceptions the loader can end with. \<^verbatim>\<open>TypeError\<close> is Python's builtin class: the
  loader raises it itself when its argument is not a string, and the interpreter raises
  the same class when a value is iterated that cannot be, or used as a dictionary key
  that cannot be one. \<^verbatim>\<open>JSONDecodeError\<close> is the decoder's error, and
  \<^verbatim>\<open>AttributeError\<close> is what \<^verbatim>\<open>.get\<close> on a value that is not a dictionary raises.
\<close>

datatype error = TypeError | JSONDecodeError | AttributeError

definition and_then :: "error + 'a \<Rightarrow> ('a \<Rightarrow> error + 'b) \<Rightarrow> error + 'b" where
  "and_then r f = (case r of Inl e \<Rightarrow> Inl e | Inr v \<Rightarrow> f v)"

fun map_result :: "('a \<Rightarrow> error + 'b) \<Rightarrow> 'a list \<Rightarrow> error + 'b list" where
  "map_result f [] = Inr []"
| "map_result f (x # xs) =
     (case f x of
        Inl e \<Rightarrow> Inl e
      | Inr y \<Rightarrow> (case map_result f xs of Inl e \<Rightarrow> Inl e | Inr ys \<Rightarrow> Inr (y # ys)))"

text \<open>Truth value of a Python object, as \<^verbatim>\<open>or\<close> and \<^verbatim>\<open>bool()\<close> test it.\<close>

fun truthy :: "pyval \<Rightarrow> bool" where
  "truthy PNone = False"
| "truthy (PBool b) = b"
| "truthy (PInt i) = (i \<noteq> 0)"
| "truthy (PFloat f) = (f \<noteq> FFin 0)"
| "truthy (PStr s) = (s \<noteq> [])"
| "truthy (PList xs) = (xs \<noteq> [])"
| "truthy (PDict kvs) = (kvs \<noteq> [])"

text \<open>\<^verbatim>\<open>a or b\<close>: the first operand when it is truthy, the second otherwise.\<close>

definition py_or :: "pyval \<Rightarrow> pyval \<Rightarrow> pyval" where
  "py_or a b = (if truthy a then a else b)"

text \<open>\<^verbatim>\<open>raw.get(key, default)\<close>: only a dictionary has the method.\<close>

fun py_get :: "pyval \<Rightarrow> string \<Rightarrow> pyval \<Rightarrow> error + pyval" where
  "py_get (PDict kvs) k d = Inr (case map_of kvs k of Some v \<Rightarrow> v | None \<Rightarrow> d)"
| "py_get PNone k d = Inl AttributeError"
| "py_get (PBool b) k d = Inl AttributeError"
| "py_get (PInt i) k d = Inl AttributeError"
| "py_get (PFloat f) k d = Inl AttributeError"
| "py_get (PStr s) k d = Inl AttributeError"
| "py_get (PList xs) k d = Inl AttributeError"

text \<open>
  Iteration, as a comprehension or \<^verbatim>\<open>list()\<close> does it: a list gives its elements, a string
  its characters as one-character strings, a dictionary its keys.
\<close>

fun py_iter :: "pyval \<Rightarrow> error + pyval list" where
  "py_iter (PList xs) = Inr xs"
| "py_iter (PStr s) = Inr (map (\<lambda>c. PStr [c]) s)"
| "py_iter (PDict kvs) = Inr (map (\<lambda>kv. PStr (fst kv)) kvs)"
| "py_iter PNone = Inl TypeError"
| "py_iter (PBool b) = Inl TypeError"
| "py_iter (PInt i) = Inl TypeError"
| "py_iter (PFloat f) = Inl TypeError"

section \<open>Dictionaries keyed by Python values\<close>

text \<open>
  Lists and dictionaries cannot be keys. Two keys are the same key when they are equal
  in Python: numbers by value across \<^verbatim>\<open>bool\<close>, \<^verbatim>\<open>int\<close> and \<^verbatim>\<open>float\<close>
  (\<^verbatim>\<open>True == 1 == 1.0\<close>), everything else by kind and content. The decoder hands out one
  shared object for every \<^verbatim>\<open>NaN\<close>, which a dictionary matches by identity.
\<close>

fun hashable :: "pyval \<Rightarrow> bool" where
  "hashable (PList xs) = False"
| "hashable (PDict kvs) = False"
| "hashable PNone = True"
| "hashable (PBool b) = True"
| "hashable (PInt i) = True"
| "hashable (PFloat f) = True"
| "hashable (PStr s) = True"

fun key_num :: "pyval \<Rightarrow> rat option" where
  "key_num (PBool b) = Some (if b then 1 else 0)"
| "key_num (PInt i) = Some (of_int i)"
| "key_num (PFloat (FFin q)) = Some q"
| "key_num (PFloat FNaN) = None"
| "key_num (PFloat (FInf s)) = None"
| "key_num PNone = None"
| "key_num (PStr s) = None"
| "key_num (PList xs) = None"
| "key_num (PDict kvs) = None"

definition key_eq :: "pyval \<Rightarrow> pyval \<Rightarrow> bool" where
  "key_eq a b =
     (case key_num a of
        Some x \<Rightarrow> key_num b = Some x
      | None \<Rightarrow> key_num b = None \<and> a = b)"

text \<open>
  \<^verbatim>\<open>d[k] = v\<close>: an existing entry keeps its key and its place and takes the new value;
  a new key goes to the end.
\<close>

fun dict_set :: "(pyval \<times> 'v) list \<Rightarrow> pyval \<Rightarrow> 'v \<Rightarrow> (pyval \<times> 'v) list" where
  "dict_set [] k v = [(k, v)]"
| "dict_set ((k', v') # d) k v =
     (if key_eq k' k then (k', v) # d else (k', v') # dict_set d k v)"

fun dict_lookup :: "(pyval \<times> 'v) list \<Rightarrow> pyval \<Rightarrow> 'v option" where
  "dict_lookup [] k = None"
| "dict_lookup ((k', v') # d) k = (if key_eq k' k then Some v' else dict_lookup d k)"

section \<open>The model classes\<close>

text \<open>
  Modelled from the spec: the classes \<^verbatim>\<open>SideCommand\<close>, \<^verbatim>\<open>SideTest\<close>, \<^verbatim>\<open>SideSuite\<close> and
  \<^verbatim>\<open>SideProject\<close> of \<^verbatim>\<open>models.py\<close>, which the loader imports. They are plain value
  objects whose constructors store the keyword arguments they are given; the fields are
  the keyword arguments of the constructor calls in \<^verbatim>\<open>loader.py\<close>.
\<close>

record side_command =
  c_id :: pyval
  c_command :: pyval
  c_target :: pyval
  c_value :: pyval
  c_comment :: pyval

record side_test =
  t_id :: pyval
  t_name :: pyval
  t_commands :: "side_command list"

record side_suite =
  s_id :: pyval
  s_name :: pyval
  s_tests :: "pyval list"
  s_persist_session :: bool
  s_parallel :: bool
  s_timeout :: pyval

record side_project =
  p_id :: pyval
  p_name :: pyval
  p_url :: pyval
  p_tests :: "(pyval \<times> side_test) list"
  p_suites :: "side_suite list"

section \<open>The loader\<close>

definition build_command :: "pyval \<Rightarrow> error + side_command" where
  "build_command raw =
     and_then (py_get raw ''id'' (PStr '''')) (\<lambda>i.
     and_then (py_get raw ''command'' (PStr '''')) (\<lambda>c.
     and_then (py_get raw ''target'' (PStr '''')) (\<lambda>t.
     and_then (py_get raw ''value'' (PStr '''')) (\<lambda>v.
     and_then (py_get raw ''comment'' PNone) (\<lambda>m.
     Inr \<lparr>c_id = i, c_command = c,
          c_target = py_or t (PStr ''''), c_value = py_or v (PStr ''''),
          c_comment = m\<rparr>)))))"

definition build_test :: "pyval \<Rightarrow> error + side_test" where
  "build_test raw =
     and_then (py_get raw ''commands'' (PList [])) (\<lambda>cs.
     and_then (py_iter cs) (\<lambda>raws.
     and_then (map_result build_command raws) (\<lambda>commands.
     and_then (py_get raw ''id'' (PStr '''')) (\<lambda>i.
     and_then (py_get raw ''name'' (PStr '''')) (\<lambda>n.
     Inr \<lparr>t_id = i, t_name = n, t_commands = commands\<rparr>)))))"

definition build_suite :: "pyval \<Rightarrow> error + side_suite" where
  "build_suite raw =
     and_then (py_get raw ''id'' (PStr '''')) (\<lambda>i.
     and_then (py_get raw ''name'' (PStr '''')) (\<lambda>n.
     and_then (py_get raw ''tests'' (PList [])) (\<lambda>ts.
     and_then (py_iter ts) (\<lambda>ids.
     and_then (py_get raw ''persistSession'' (PBool False)) (\<lambda>ps.
     and_then (py_get raw ''parallel'' (PBool False)) (\<lambda>pa.
     and_then (py_get raw ''timeout'' PNone) (\<lambda>tmo.
     Inr \<lparr>s_id = i, s_name = n, s_tests = ids,
          s_persist_session = truthy ps, s_parallel = truthy pa,
          s_timeout = tmo\<rparr>)))))))"

text \<open>
  \<^verbatim>\<open>{test.id: test for test in tests}\<close>, started from the dictionary built so far: the
  tests are entered in order, and the first id that cannot be a key ends the loading.
\<close>

fun test_map_from :: "(pyval \<times> side_test) list \<Rightarrow> side_test list \<Rightarrow> error + (pyval \<times> side_test) list" where
  "test_map_from d [] = Inr d"
| "test_map_from d (t # ts) =
     (if hashable (t_id t) then test_map_from (dict_set d (t_id t) t) ts
      else Inl TypeError)"

text \<open>
  The entry point. \<^verbatim>\<open>json.loads\<close> is a parameter: the text it rejects is \<open>None\<close>, and
  the value it returns is otherwise. The keyword argument \<^verbatim>\<open>default_name\<close> is
  \<^const>\<open>PNone\<close> when the caller leaves it out.
\<close>

definition load_side_project :: "(string \<Rightarrow> pyval option) \<Rightarrow> pyval \<Rightarrow> pyval \<Rightarrow> error + side_project" where
  "load_side_project json_loads json_payload default_name =
     (case json_payload of
        PStr text \<Rightarrow>
          (case json_loads text of
             None \<Rightarrow> Inl JSONDecodeError
           | Some raw_project \<Rightarrow>
               and_then (py_get raw_project ''name'' PNone) (\<lambda>nm.
               and_then (py_get raw_project ''tests'' (PList [])) (\<lambda>rts.
               and_then (py_iter rts) (\<lambda>raw_tests.
               and_then (map_result build_test raw_tests) (\<lambda>tests.
               and_then (test_map_from [] tests) (\<lambda>test_map.
               and_then (py_get raw_project ''suites'' (PList [])) (\<lambda>rss.
               and_then (py_iter rss) (\<lambda>raw_suites.
               and_then (map_result build_suite raw_suites) (\<lambda>suites.
               and_then (py_get raw_project ''id'' (PStr '''')) (\<lambda>i.
               and_then (py_get raw_project ''url'' PNone) (\<lambda>u.
               Inr \<lparr>p_id = i,
                    p_name = py_or nm (py_or default_name (PStr ''Unnamed Project'')),
                    p_url = u, p_tests = test_map, p_suites = suites\<rparr>)))))))))))
      | PNone \<Rightarrow> Inl TypeError
      | PBool b \<Rightarrow> Inl TypeError
      | PInt n \<Rightarrow> Inl TypeError
      | PFloat f \<Rightarrow> Inl TypeError
      | PList xs \<Rightarrow> Inl TypeError
      | PDict kvs \<Rightarrow> Inl TypeError)"

section \<open>Auxiliary notions for the statements\<close>

text \<open>
  A canonical form of a key: two keys are equal in Python exactly when they have the
  same canonical form.
\<close>

definition key_norm :: "pyval \<Rightarrow> rat option \<times> pyval" where
  "key_norm a = (case key_num a of Some x \<Rightarrow> (Some x, PNone) | None \<Rightarrow> (None, a))"

text \<open>
  The shape of a project file as the annotations \<^verbatim>\<open>Dict[str, Any]\<close> of the builders
  expect it: a JSON object whose \<^verbatim>\<open>tests\<close>, when present, is an array of objects, each
  with \<^verbatim>\<open>commands\<close> (when present) an array of objects and \<^verbatim>\<open>id\<close> (when present)
  neither an array nor an object; and whose \<^verbatim>\<open>suites\<close>, when present, is an array of
  objects, each with \<^verbatim>\<open>tests\<close> (when present) an array. Every other field is free.
\<close>

fun is_dict :: "pyval \<Rightarrow> bool" where
  "is_dict (PDict kvs) = True"
| "is_dict _ = False"

definition absent_or :: "(pyval \<Rightarrow> bool) \<Rightarrow> (string \<times> pyval) list \<Rightarrow> string \<Rightarrow> bool" where
  "absent_or P kvs k = (case map_of kvs k of None \<Rightarrow> True | Some v \<Rightarrow> P v)"

fun array_of :: "(pyval \<Rightarrow> bool) \<Rightarrow> pyval \<Rightarrow> bool" where
  "array_of P (PList xs) = list_all P xs"
| "array_of P _ = False"

fun test_shaped :: "pyval \<Rightarrow> bool" where
  "test_shaped (PDict kvs) =
     (absent_or (array_of is_dict) kvs ''commands'' \<and> absent_or hashable kvs ''id'')"
| "test_shaped _ = False"

fun suite_shaped :: "pyval \<Rightarrow> bool" where
  "suite_shaped (PDict kvs) = absent_or (array_of (\<lambda>v. True)) kvs ''tests''"
| "suite_shaped _ = False"

fun project_shaped :: "pyval \<Rightarrow> bool" where
  "project_shaped (PDict kvs) =
     (absent_or (array_of test_shaped) kvs ''tests'' \<and>
      absent_or (array_of suite_shaped) kvs ''suites'')"
| "project_shaped _ = False"

text \<open>
  The example document of the specification, one test \<^verbatim>\<open>t1\<close> and one suite that names
  \<^verbatim>\<open>t1\<close> and an id \<^verbatim>\<open>missing\<close> that no test has: its text, and the value the decoder
  returns for it.
\<close>

definition example_text :: string where
  \<open>example_text =
     ''{"tests":[{"id":"t1","name":"A","commands":[]}],"suites":[{"id":"s1","name":"S","tests":["t1","missing"]}]}''\<close>

definition example_project :: pyval where
  "example_project =
     PDict [(''tests'', PList [PDict [(''id'', PStr ''t1''), (''name'', PStr ''A''),
                                      (''commands'', PList [])]]),
            (''suites'', PList [PDict [(''id'', PStr ''s1''), (''name'', PStr ''S''),
                                       (''tests'', PList [PStr ''t1'', PStr ''missing''])]])]"

section \<open>Basic facts\<close>

lemma and_then_simps [simp]:
  "and_then (Inl e) f = Inl e"
  "and_then (Inr v) f = f v"
  by (simp_all add: and_then_def)

lemma and_then_eq_Inr:
  "(and_then r f = Inr y) = (\<exists>v. r = Inr v \<and> f v = Inr y)"
  by (cases r) simp_all

lemma py_get_eq_Inr:
  "(py_get raw k d = Inr v) = (\<exists>kvs. raw = PDict kvs \<and> v = (case map_of kvs k of Some w \<Rightarrow> w | None \<Rightarrow> d))"
  by (cases raw) auto

lemma build_command_dict:
  "build_command (PDict kvs) =
     Inr \<lparr>c_id = (case map_of kvs ''id'' of Some w \<Rightarrow> w | None \<Rightarrow> PStr ''''),
          c_command = (case map_of kvs ''command'' of Some w \<Rightarrow> w | None \<Rightarrow> PStr ''''),
          c_target = py_or (case map_of kvs ''target'' of Some w \<Rightarrow> w | None \<Rightarrow> PStr '''') (PStr ''''),
          c_value = py_or (case map_of kvs ''value'' of Some w \<Rightarrow> w | None \<Rightarrow> PStr '''') (PStr ''''),
          c_comment = (case map_of kvs ''comment'' of Some w \<Rightarrow> w | None \<Rightarrow> PNone)\<rparr>"
  by (simp add: build_command_def)


lemma map_result_imp_all2:
  "map_result f xs = Inr ys \<Longrightarrow> list_all2 (\<lambda>x y. f x = Inr y) xs ys"
  by (induction xs arbitrary: ys) (auto split: sum.splits)

lemma map_result_total:
  "\<forall>x\<in>set xs. \<exists>y. f x = Inr y \<Longrightarrow> \<exists>ys. map_result f xs = Inr ys"
  by (induction xs) (auto split: sum.splits)

lemma build_test_dict:
  "py_iter (case map_of kvs ''commands'' of Some w \<Rightarrow> w | None \<Rightarrow> PList []) = Inr raws \<Longrightarrow>
   map_result build_command raws = Inr commands \<Longrightarrow>
   build_test (PDict kvs) =
     Inr \<lparr>t_id = (case map_of kvs ''id'' of Some w \<Rightarrow> w | None \<Rightarrow> PStr ''''),
          t_name = (case map_of kvs ''name'' of Some w \<Rightarrow> w | None \<Rightarrow> PStr ''''),
          t_commands = commands\<rparr>"
  by (simp add: build_test_def)


lemma build_test_Inr:
  "build_test raw = Inr t \<Longrightarrow>
   \<exists>kvs raws. raw = PDict kvs \<and>
     py_iter (case map_of kvs ''commands'' of Some w \<Rightarrow> w | None \<Rightarrow> PList []) = Inr raws \<and>
     map_result build_command raws = Inr (t_commands t) \<and>
     t_id t = (case map_of kvs ''id'' of Some w \<Rightarrow> w | None \<Rightarrow> PStr '''') \<and>
     t_name t = (case map_of kvs ''name'' of Some w \<Rightarrow> w | None \<Rightarrow> PStr '''')"
  by (auto simp add: build_test_def and_then_eq_Inr py_get_eq_Inr)


lemma build_suite_dict:
  "py_iter (case map_of kvs ''tests'' of Some w \<Rightarrow> w | None \<Rightarrow> PList []) = Inr ids \<Longrightarrow>
   build_suite (PDict kvs) =
     Inr \<lparr>s_id = (case map_of kvs ''id'' of Some w \<Rightarrow> w | None \<Rightarrow> PStr ''''),
          s_name = (case map_of kvs ''name'' of Some w \<Rightarrow> w | None \<Rightarrow> PStr ''''),
          s_tests = ids,
          s_persist_session = truthy (case map_of kvs ''persistSession'' of Some w \<Rightarrow> w | None \<Rightarrow> PBool False),
          s_parallel = truthy (case map_of kvs ''parallel'' of Some w \<Rightarrow> w | None \<Rightarrow> PBool False),
          s_timeout = (case map_of kvs ''timeout'' of Some w \<Rightarrow> w | None \<Rightarrow> PNone)\<rparr>"
  by (simp add: build_suite_def)

lemma build_suite_Inr:
  "build_suite raw = Inr s \<Longrightarrow>
   \<exists>kvs. raw = PDict kvs \<and>
     py_iter (case map_of kvs ''tests'' of Some w \<Rightarrow> w | None \<Rightarrow> PList []) = Inr (s_tests s) \<and>
     s_id s = (case map_of kvs ''id'' of Some w \<Rightarrow> w | None \<Rightarrow> PStr '''') \<and>
     s_name s = (case map_of kvs ''name'' of Some w \<Rightarrow> w | None \<Rightarrow> PStr '''') \<and>
     s_persist_session s = truthy (case map_of kvs ''persistSession'' of Some w \<Rightarrow> w | None \<Rightarrow> PBool False) \<and>
     s_parallel s = truthy (case map_of kvs ''parallel'' of Some w \<Rightarrow> w | None \<Rightarrow> PBool False) \<and>
     s_timeout s = (case map_of kvs ''timeout'' of Some w \<Rightarrow> w | None \<Rightarrow> PNone)"
  by (cases raw) (auto simp add: build_suite_def and_then_eq_Inr)

lemma load_Inr:
  "load_side_project json_loads (PStr text) d = Inr p \<Longrightarrow>
   \<exists>kvs raw_tests tests raw_suites.
     json_loads text = Some (PDict kvs) \<and>
     py_iter (case map_of kvs ''tests'' of Some w \<Rightarrow> w | None \<Rightarrow> PList []) = Inr raw_tests \<and>
     map_result build_test raw_tests = Inr tests \<and>
     test_map_from [] tests = Inr (p_tests p) \<and>
     py_iter (case map_of kvs ''suites'' of Some w \<Rightarrow> w | None \<Rightarrow> PList []) = Inr raw_suites \<and>
     map_result build_suite raw_suites = Inr (p_suites p) \<and>
     p_id p = (case map_of kvs ''id'' of Some w \<Rightarrow> w | None \<Rightarrow> PStr '''') \<and>
     p_name p = py_or (case map_of kvs ''name'' of Some w \<Rightarrow> w | None \<Rightarrow> PNone)
                  (py_or d (PStr ''Unnamed Project'')) \<and>
     p_url p = (case map_of kvs ''url'' of Some w \<Rightarrow> w | None \<Rightarrow> PNone)"
proof -
  assume a: "load_side_project json_loads (PStr text) d = Inr p"
  then obtain raw where r: "json_loads text = Some raw"
    by (cases "json_loads text") (simp_all add: load_side_project_def)
  from a r show ?thesis
    by (cases raw) (auto simp add: load_side_project_def and_then_eq_Inr)
qed

lemma load_dict:
  "json_loads text = Some (PDict kvs) \<Longrightarrow>
   py_iter (case map_of kvs ''tests'' of Some w \<Rightarrow> w | None \<Rightarrow> PList []) = Inr raw_tests \<Longrightarrow>
   map_result build_test raw_tests = Inr tests \<Longrightarrow>
   test_map_from [] tests = Inr test_map \<Longrightarrow>
   py_iter (case map_of kvs ''suites'' of Some w \<Rightarrow> w | None \<Rightarrow> PList []) = Inr raw_suites \<Longrightarrow>
   map_result build_suite raw_suites = Inr suites \<Longrightarrow>
   load_side_project json_loads (PStr text) d =
     Inr \<lparr>p_id = (case map_of kvs ''id'' of Some w \<Rightarrow> w | None \<Rightarrow> PStr ''''),
          p_name = py_or (case map_of kvs ''name'' of Some w \<Rightarrow> w | None \<Rightarrow> PNone)
                     (py_or d (PStr ''Unnamed Project'')),
          p_url = (case map_of kvs ''url'' of Some w \<Rightarrow> w | None \<Rightarrow> PNone),
          p_tests = test_map, p_suites = suites\<rparr>"
  by (simp add: load_side_project_def)

subsection \<open>Dictionaries\<close>

lemma key_eq_norm: "key_eq a b = (key_norm a = key_norm b)"
  by (auto simp add: key_eq_def key_norm_def split: option.splits)

lemma key_eq_refl: "key_eq a a"
  by (simp add: key_eq_norm)

lemma key_eq_str: "key_eq (PStr s) b = (b = PStr s)"
  by (cases b) (auto simp add: key_eq_def)

lemma dict_lookup_set:
  "dict_lookup (dict_set d k v) k' = (if key_eq k k' then Some v else dict_lookup d k')"
  by (induction d) (auto simp add: key_eq_norm)

lemma dict_set_keys:
  "map fst (dict_set d k v) =
     (if \<exists>kv\<in>set d. key_eq (fst kv) k then map fst d else map fst d @ [k])"
proof (induction d)
  case Nil
  then show ?case by simp
next
  case (Cons a d)
  obtain k' v' where a: "a = (k', v')" by (cases a)
  show ?case
  proof (cases "key_eq k' k")
    case True
    with a show ?thesis by simp
  next
    case False
    with a Cons.IH show ?thesis by simp
  qed
qed

lemma norm_imageI: "(a, b) \<in> set m \<Longrightarrow> key_norm a \<in> (\<lambda>kv. key_norm (fst kv)) ` set m"
  by force

lemma map_norm_keys:
  "map (\<lambda>kv. key_norm (fst kv)) e = map key_norm (map fst e)"
  by simp

lemma dict_set_distinct:
  assumes "distinct (map (\<lambda>kv. key_norm (fst kv)) d)"
  shows "distinct (map (\<lambda>kv. key_norm (fst kv)) (dict_set d k v))"
proof (cases "\<exists>kv\<in>set d. key_eq (fst kv) k")
  case True
  then have "map fst (dict_set d k v) = map fst d"
    by (simp add: dict_set_keys)
  then have "map (\<lambda>kv. key_norm (fst kv)) (dict_set d k v) = map (\<lambda>kv. key_norm (fst kv)) d"
    by (simp only: map_norm_keys)
  with assms show ?thesis by simp
next
  case False
  then have n: "key_norm k \<notin> set (map (\<lambda>kv. key_norm (fst kv)) d)"
    by (auto simp add: key_eq_norm)
  from False have "map fst (dict_set d k v) = map fst d @ [k]"
    by (simp add: dict_set_keys)
  then have "map (\<lambda>kv. key_norm (fst kv)) (dict_set d k v) =
             map (\<lambda>kv. key_norm (fst kv)) d @ [key_norm k]"
    by (simp only: map_norm_keys map_append list.map)
  with assms n show ?thesis by simp
qed

lemma test_map_from_distinct:
  "test_map_from d ts = Inr m \<Longrightarrow> distinct (map (\<lambda>kv. key_norm (fst kv)) d) \<Longrightarrow>
   distinct (map (\<lambda>kv. key_norm (fst kv)) m)"
proof (induction ts arbitrary: d)
  case Nil
  then show ?case by simp
next
  case (Cons t ts)
  from Cons.prems have r: "test_map_from (dict_set d (t_id t) t) ts = Inr m"
    by (auto split: if_splits)
  from Cons.IH [OF r dict_set_distinct [OF Cons.prems(2)]] show ?case .
qed

lemma test_map_from_lookup:
  "test_map_from d ts = Inr m \<Longrightarrow>
   dict_lookup m k =
     (case filter (\<lambda>t. key_eq (t_id t) k) ts of [] \<Rightarrow> dict_lookup d k | u # us \<Rightarrow> Some (last (u # us)))"
proof (induction ts arbitrary: d)
  case Nil
  then show ?case by simp
next
  case (Cons t ts)
  from Cons.prems have h: "hashable (t_id t)"
    and r: "test_map_from (dict_set d (t_id t) t) ts = Inr m"
    by (auto split: if_splits)
  show ?case
    using Cons.IH [OF r]
    by (cases "filter (\<lambda>t. key_eq (t_id t) k) ts") (simp_all add: dict_lookup_set)
qed

lemma test_map_from_keys:
  "test_map_from d ts = Inr m \<Longrightarrow> set (map fst m) \<subseteq> set (map fst d) \<union> t_id ` set ts"
proof (induction ts arbitrary: d)
  case Nil
  then show ?case by simp
next
  case (Cons t ts)
  from Cons.prems have r: "test_map_from (dict_set d (t_id t) t) ts = Inr m"
    by (auto split: if_splits)
  have k: "set (map fst (dict_set d (t_id t) t)) \<subseteq> set (map fst d) \<union> {t_id t}"
    unfolding dict_set_keys by auto
  from Cons.IH [OF r] k show ?case by auto
qed

lemma dict_lookup_None:
  "(dict_lookup m k = None) = (\<forall>kv\<in>set m. \<not> key_eq (fst kv) k)"
  by (induction m) (auto split: if_splits)

lemma test_map_from_total:
  "\<forall>t\<in>set ts. hashable (t_id t) \<Longrightarrow> \<exists>m. test_map_from d ts = Inr m"
  by (induction ts arbitrary: d) auto

lemma distinct_filter_le1:
  "distinct (map f xs) \<Longrightarrow> length (filter (\<lambda>x. f x = y) xs) \<le> 1"
proof (induction xs)
  case Nil
  then show ?case by simp
next
  case (Cons a xs)
  show ?case
  proof (cases "f a = y")
    case True
    with Cons.prems have "y \<notin> f ` set xs" by simp
    then have "\<forall>x\<in>set xs. f x \<noteq> y" by blast
    then have "filter (\<lambda>x. f x = y) xs = []" by (simp add: filter_empty_conv)
    with True show ?thesis by simp
  next
    case False
    with Cons show ?thesis by simp
  qed
qed

lemma dict_lookup_entry:
  "distinct (map (\<lambda>kv. key_norm (fst kv)) m) \<Longrightarrow> (k, v) \<in> set m \<Longrightarrow> dict_lookup m k = Some v"
proof (induction m)
  case Nil
  then show ?case by simp
next
  case (Cons a m)
  show ?case
  proof (cases "(k, v) = a")
    case True
    then have "a = (k, v)" by simp
    then show ?thesis by (simp add: key_eq_refl)
  next
    case False
    with Cons.prems have in_m: "(k, v) \<in> set m" by simp
    then have "key_norm k \<in> (\<lambda>kv. key_norm (fst kv)) ` set m"
      by (rule norm_imageI)
    moreover from Cons.prems have "key_norm (fst a) \<notin> (\<lambda>kv. key_norm (fst kv)) ` set m"
      by simp
    ultimately have "key_norm (fst a) \<noteq> key_norm k" by metis
    then have "\<not> key_eq (fst a) k" by (simp add: key_eq_norm)
    with Cons.IH in_m Cons.prems show ?thesis by (cases a) simp
  qed
qed

lemma dict_lookup_Some:
  "dict_lookup m k = Some v \<Longrightarrow> \<exists>k'. key_eq k' k \<and> (k', v) \<in> set m"
  by (induction m) (auto split: if_splits)

subsection \<open>Records of the expected shape are built\<close>

lemma map_result_Inr_set:
  "map_result f xs = Inr ys \<Longrightarrow> \<forall>y\<in>set ys. \<exists>x\<in>set xs. f x = Inr y"
  by (induction xs arbitrary: ys) (auto split: sum.splits)

lemma array_of_elim: "array_of P v \<Longrightarrow> \<exists>xs. v = PList xs \<and> list_all P xs"
  by (cases v) simp_all

lemma is_dict_elim: "is_dict v \<Longrightarrow> \<exists>kvs. v = PDict kvs"
  by (cases v) simp_all

lemma absent_or_iter:
  "absent_or (array_of P) kvs k \<Longrightarrow>
   \<exists>xs. py_iter (case map_of kvs k of Some w \<Rightarrow> w | None \<Rightarrow> PList []) = Inr xs \<and> list_all P xs"
  by (cases "map_of kvs k") (auto simp add: absent_or_def dest: array_of_elim)

lemma build_test_shaped:
  assumes "test_shaped raw"
  shows "\<exists>t. build_test raw = Inr t \<and> hashable (t_id t)"
proof -
  from assms obtain kvs where raw: "raw = PDict kvs"
    and c: "absent_or (array_of is_dict) kvs ''commands''"
    and i: "absent_or hashable kvs ''id''"
    by (cases raw) simp_all
  from absent_or_iter [OF c] obtain cs
    where it: "py_iter (case map_of kvs ''commands'' of Some w \<Rightarrow> w | None \<Rightarrow> PList []) = Inr cs"
      and ds: "list_all is_dict cs" by blast
  from ds have "\<forall>x\<in>set cs. \<exists>y. build_command x = Inr y"
    by (auto simp add: list_all_iff build_command_dict dest!: is_dict_elim)
  then obtain commands where m: "map_result build_command cs = Inr commands"
    using map_result_total by blast
  from i have "hashable (case map_of kvs ''id'' of Some w \<Rightarrow> w | None \<Rightarrow> PStr '''')"
    by (cases "map_of kvs ''id''") (simp_all add: absent_or_def)
  with build_test_dict [OF it m] raw show ?thesis by simp
qed

lemma build_suite_shaped:
  assumes "suite_shaped raw"
  shows "\<exists>s. build_suite raw = Inr s"
proof -
  from assms obtain kvs where raw: "raw = PDict kvs"
    and c: "absent_or (array_of (\<lambda>v. True)) kvs ''tests''"
    by (cases raw) simp_all
  from absent_or_iter [OF c] obtain ids
    where "py_iter (case map_of kvs ''tests'' of Some w \<Rightarrow> w | None \<Rightarrow> PList []) = Inr ids"
    by blast
  from build_suite_dict [OF this] raw show ?thesis by simp
qed

lemma load_shaped_Inr:
  assumes "json_loads text = Some raw" and "project_shaped raw"
  shows "\<exists>p. load_side_project json_loads (PStr text) d = Inr p"
proof -
  from assms(2) obtain kvs where raw: "raw = PDict kvs"
    and t: "absent_or (array_of test_shaped) kvs ''tests''"
    and s: "absent_or (array_of suite_shaped) kvs ''suites''"
    by (cases raw) simp_all
  from absent_or_iter [OF t] obtain raw_tests
    where it: "py_iter (case map_of kvs ''tests'' of Some w \<Rightarrow> w | None \<Rightarrow> PList []) = Inr raw_tests"
      and ts: "list_all test_shaped raw_tests" by blast
  from ts have tb: "\<forall>x\<in>set raw_tests. \<exists>t. build_test x = Inr t"
    by (auto simp add: list_all_iff dest!: build_test_shaped)
  then obtain tests where mt: "map_result build_test raw_tests = Inr tests"
    using map_result_total by blast
  have "\<forall>t\<in>set tests. hashable (t_id t)"
  proof
    fix t assume "t \<in> set tests"
    with map_result_Inr_set [OF mt] obtain x where "x \<in> set raw_tests" and "build_test x = Inr t"
      by blast
    with ts build_test_shaped [of x] show "hashable (t_id t)"
      by (auto simp add: list_all_iff)
  qed
  then obtain test_map where tm: "test_map_from [] tests = Inr test_map"
    using test_map_from_total by blast
  from absent_or_iter [OF s] obtain raw_suites
    where isu: "py_iter (case map_of kvs ''suites'' of Some w \<Rightarrow> w | None \<Rightarrow> PList []) = Inr raw_suites"
      and ss: "list_all suite_shaped raw_suites" by blast
  from ss have "\<forall>x\<in>set raw_suites. \<exists>s. build_suite x = Inr s"
    by (auto simp add: list_all_iff dest!: build_suite_shaped)
  then obtain suites where ms: "map_result build_suite raw_suites = Inr suites"
    using map_result_total by blast
  from assms(1) raw have "json_loads text = Some (PDict kvs)" by simp
  from load_dict [of json_loads "text" kvs, OF this it mt tm isu ms] show ?thesis by blast
qed

subsection \<open>The tests dictionary\<close>

lemma dict_lookup_key_eq: "key_eq k k' \<Longrightarrow> dict_lookup m k = dict_lookup m k'"
  by (induction m) (auto simp add: key_eq_norm)

lemma filter_key_le1:
  assumes "distinct (map (\<lambda>kv. key_norm (fst kv)) m)"
  shows "length (filter (\<lambda>kv. key_eq (fst kv) k) m) \<le> 1"
proof -
  have "filter (\<lambda>kv. key_eq (fst kv) k) m = filter (\<lambda>kv. key_norm (fst kv) = key_norm k) m"
    by (simp add: key_eq_norm)
  with distinct_filter_le1 [OF assms, of "key_norm k"] show ?thesis by simp
qed

lemma test_map_lookup_last:
  assumes "test_map_from [] tests = Inr m" and "t \<in> set tests"
  shows "dict_lookup m (t_id t) = Some (last (filter (\<lambda>u. key_eq (t_id u) (t_id t)) tests))"
proof -
  from assms(2) have "t \<in> set (filter (\<lambda>u. key_eq (t_id u) (t_id t)) tests)"
    by (simp add: key_eq_refl)
  then obtain u us where "filter (\<lambda>u. key_eq (t_id u) (t_id t)) tests = u # us"
    by (cases "filter (\<lambda>u. key_eq (t_id u) (t_id t)) tests") auto
  with test_map_from_lookup [OF assms(1), of "t_id t"] show ?thesis by simp
qed

lemma test_map_has_key:
  assumes "test_map_from [] tests = Inr m"
  shows "(\<exists>kv\<in>set m. key_eq (fst kv) k) = (\<exists>t\<in>set tests. key_eq (t_id t) k)"
proof -
  have "(\<exists>kv\<in>set m. key_eq (fst kv) k) = (dict_lookup m k \<noteq> None)"
    by (simp add: dict_lookup_None)
  also have "\<dots> = (filter (\<lambda>t. key_eq (t_id t) k) tests \<noteq> [])"
    using test_map_from_lookup [OF assms, of k]
    by (cases "filter (\<lambda>t. key_eq (t_id t) k) tests") simp_all
  also have "\<dots> = (\<exists>t\<in>set tests. key_eq (t_id t) k)"
    by (simp add: filter_empty_conv)
  finally show ?thesis .
qed

lemma load_test_map:
  assumes "load_side_project json_loads (PStr text) d = Inr p"
    and "json_loads text = Some (PDict kvs)"
    and "py_iter (case map_of kvs ''tests'' of Some w \<Rightarrow> w | None \<Rightarrow> PList []) = Inr raw_tests"
    and "map_result build_test raw_tests = Inr tests"
  shows "test_map_from [] tests = Inr (p_tests p)"
  using load_Inr [OF assms(1)] assms(2-4) by auto



section \<open>The builders\<close>

text \<open>
  C5. For every raw command record, the built command's \<^verbatim>\<open>target\<close> is the empty
  string whenever the raw field is missing, \<^verbatim>\<open>null\<close> or any other falsy value (the empty
  string included), and a present truthy value, a non-empty string in particular, is
  taken unchanged; likewise for \<^verbatim>\<open>value\<close>. Building a command from a record never fails.
\<close>

theorem command_target_value_falsy_to_empty:
  "\<exists>c. build_command (PDict kvs) = Inr c \<and>
     (map_of kvs ''target'' = None \<or> (\<exists>v. map_of kvs ''target'' = Some v \<and> \<not> truthy v)
        \<longrightarrow> c_target c = PStr '''') \<and>
     (\<forall>v. map_of kvs ''target'' = Some v \<and> truthy v \<longrightarrow> c_target c = v) \<and>
     (map_of kvs ''value'' = None \<or> (\<exists>v. map_of kvs ''value'' = Some v \<and> \<not> truthy v)
        \<longrightarrow> c_value c = PStr '''') \<and>
     (\<forall>v. map_of kvs ''value'' = Some v \<and> truthy v \<longrightarrow> c_value c = v)"
  by (auto simp add: build_command_dict py_or_def)

theorem command_target_value_falsy_to_empty_witness:
  "\<exists>c. build_command (PDict [(''id'', PStr ''c1''), (''target'', PNone), (''value'', PStr ''x'')]) = Inr c \<and>
     c_target c = PStr '''' \<and> c_value c = PStr ''x''"
  using command_target_value_falsy_to_empty
    [of "[(''id'', PStr ''c1''), (''target'', PNone), (''value'', PStr ''x'')]"]
  by simp

text \<open>
  C8. For every raw suite record, the built suite's \<^verbatim>\<open>persist_session\<close> and
  \<^verbatim>\<open>parallel\<close> are the truth values of the raw \<^verbatim>\<open>persistSession\<close> and \<^verbatim>\<open>parallel\<close>,
  false when the key is absent, and its \<^verbatim>\<open>timeout\<close> is the raw value unchanged,
  \<^verbatim>\<open>None\<close> when the key is absent.
\<close>

theorem suite_flags_and_timeout:
  "build_suite (PDict kvs) = Inr s \<Longrightarrow>
     s_persist_session s = (case map_of kvs ''persistSession'' of None \<Rightarrow> False | Some v \<Rightarrow> truthy v) \<and>
     s_parallel s = (case map_of kvs ''parallel'' of None \<Rightarrow> False | Some v \<Rightarrow> truthy v) \<and>
     s_timeout s = (case map_of kvs ''timeout'' of None \<Rightarrow> PNone | Some v \<Rightarrow> v)"
  by (drule build_suite_Inr) (auto split: option.splits)

theorem suite_flags_and_timeout_witness:
  "\<exists>s. build_suite (PDict [(''id'', PStr ''s1''), (''parallel'', PInt 2), (''timeout'', PInt 300)]) = Inr s \<and>
     s_persist_session s = False \<and> s_parallel s = True \<and> s_timeout s = PInt 300"
proof -
  let ?s = "\<lparr>s_id = PStr ''s1'', s_name = PStr '''', s_tests = [], s_persist_session = False,
             s_parallel = True, s_timeout = PInt 300\<rparr>"
  have h: "build_suite (PDict [(''id'', PStr ''s1''), (''parallel'', PInt 2), (''timeout'', PInt 300)]) = Inr ?s"
    by (simp add: build_suite_def)
  from suite_flags_and_timeout [OF h] h show ?thesis by simp
qed

text \<open>
  C9. For every raw test record, the built test's commands are the raw \<^verbatim>\<open>commands\<close> list
  (empty when the key is missing) mapped through the command builder one by one: the same
  length, and the i-th built command is the build of the i-th raw command.
\<close>

theorem test_commands_elementwise:
  assumes "build_test (PDict kvs) = Inr t"
    and "map_of kvs ''commands'' = Some (PList cs) \<or> (map_of kvs ''commands'' = None \<and> cs = [])"
  shows "length (t_commands t) = length cs \<and>
         (\<forall>i<length cs. build_command (cs ! i) = Inr (t_commands t ! i))"
proof -
  from build_test_Inr [OF assms(1)] assms(2)
  have "map_result build_command cs = Inr (t_commands t)"
    by auto
  then have "list_all2 (\<lambda>x y. build_command x = Inr y) cs (t_commands t)"
    by (rule map_result_imp_all2)
  then show ?thesis
    by (simp add: list_all2_conv_all_nth)
qed

theorem test_commands_elementwise_witness:
  "\<exists>t. build_test (PDict [(''id'', PStr ''t1''),
            (''commands'', PList [PDict [(''command'', PStr ''open'')],
                                  PDict [(''command'', PStr ''click'')]])]) = Inr t \<and>
       length (t_commands t) = 2 \<and>
       build_command (PDict [(''command'', PStr ''open'')]) = Inr (t_commands t ! 0) \<and>
       build_command (PDict [(''command'', PStr ''click'')]) = Inr (t_commands t ! 1)"
proof -
  let ?cs = "[PDict [(''command'', PStr ''open'')], PDict [(''command'', PStr ''click'')]]"
  let ?kvs = "[(''id'', PStr ''t1''), (''commands'', PList ?cs)]"
  let ?t = "\<lparr>t_id = PStr ''t1'', t_name = PStr '''',
             t_commands = [\<lparr>c_id = PStr '''', c_command = PStr ''open'', c_target = PStr '''',
                              c_value = PStr '''', c_comment = PNone\<rparr>,
                           \<lparr>c_id = PStr '''', c_command = PStr ''click'', c_target = PStr '''',
                              c_value = PStr '''', c_comment = PNone\<rparr>]\<rparr>"
  have h: "build_test (PDict ?kvs) = Inr ?t"
    by (simp add: build_test_def build_command_def py_or_def)
  have c: "map_of ?kvs ''commands'' = Some (PList ?cs) \<or> (map_of ?kvs ''commands'' = None \<and> ?cs = [])"
    by simp
  note r = test_commands_elementwise [OF h c]
  from r have l: "length (t_commands ?t) = 2" by simp
  have n: "(0::nat) < length ?cs" "(1::nat) < length ?cs" by simp_all
  from r n have "build_command (?cs ! 0) = Inr (t_commands ?t ! 0)"
    and "build_command (?cs ! 1) = Inr (t_commands ?t ! 1)"
    by blast+
  with h l show ?thesis by (intro exI [of _ ?t]) simp
qed

text \<open>
  C6. A suite's test ids are the raw \<^verbatim>\<open>tests\<close> array as it is, in order, whatever the
  project's tests are; loading the example project succeeds, its suite keeps the list
  \<^verbatim>\<open>["t1", "missing"]\<close>, and the tests dictionary has the key \<^verbatim>\<open>t1\<close> alone.
\<close>

theorem suite_test_ids_verbatim:
  "(map_of kvs ''tests'' = Some (PList ids) \<longrightarrow>
      (\<exists>s. build_suite (PDict kvs) = Inr s \<and> s_tests s = ids)) \<and>
   (json_loads text = Some example_project \<longrightarrow>
      (\<exists>p. load_side_project json_loads (PStr text) d = Inr p \<and>
           map s_tests (p_suites p) = [[PStr ''t1'', PStr ''missing'']] \<and>
           map fst (p_tests p) = [PStr ''t1'']))"
  by (simp add: build_suite_def load_side_project_def example_project_def build_test_def)

theorem suite_test_ids_verbatim_witness:
  "(\<exists>s. build_suite (PDict [(''id'', PStr ''s1''), (''tests'', PList [PStr ''b'', PInt 7, PStr ''a''])]) = Inr s \<and>
        s_tests s = [PStr ''b'', PInt 7, PStr ''a'']) \<and>
   (\<exists>p. load_side_project (map_of [(example_text, example_project)]) (PStr example_text) PNone = Inr p \<and>
        map s_tests (p_suites p) = [[PStr ''t1'', PStr ''missing'']] \<and>
        map fst (p_tests p) = [PStr ''t1''])"
  using suite_test_ids_verbatim
    [of "[(''id'', PStr ''s1''), (''tests'', PList [PStr ''b'', PInt 7, PStr ''a''])]"
        "[PStr ''b'', PInt 7, PStr ''a'']" "map_of [(example_text, example_project)]" example_text PNone]
  by simp

section \<open>The entry point\<close>




text \<open>
  C1, as stated: every text that is valid JSON loads without an error. It fails: the
  valid document \<^verbatim>\<open>[]\<close> ends in \<^verbatim>\<open>AttributeError\<close>, since a list has no \<^verbatim>\<open>get\<close>, and
  \<^verbatim>\<open>{"tests": 5}\<close> ends in \<^verbatim>\<open>TypeError\<close>, since an integer cannot be iterated.
\<close>

theorem load_rejects_valid_json_counterexample:
  \<open>load_side_project (map_of [(''[]'', PList [])]) (PStr ''[]'') PNone = Inl AttributeError \<and>
   load_side_project (map_of [(''{"tests": 5}'', PDict [(''tests'', PInt 5)])])
     (PStr ''{"tests": 5}'') PNone = Inl TypeError\<close>
  by (simp add: load_side_project_def)

text \<open>
  C1, amended: every text that parses to a JSON object of the expected shape loads and
  returns a project. The shape asks that \<^verbatim>\<open>tests\<close>, when present, is an array of objects,
  each with \<^verbatim>\<open>commands\<close> (when present) an array of objects and \<^verbatim>\<open>id\<close> (when present)
  neither an array nor an object, and that \<^verbatim>\<open>suites\<close>, when present, is an array of
  objects, each with \<^verbatim>\<open>tests\<close> (when present) an array. Missing fields, values of any type
  in the other fields, and suite test ids that no test has are all accepted.
\<close>

theorem load_succeeds_on_shaped_project:
  assumes "json_loads text = Some raw" and "project_shaped raw"
  shows "\<exists>p. load_side_project json_loads (PStr text) d = Inr p"
  using assms by (rule load_shaped_Inr)

theorem load_succeeds_on_shaped_project_witness:
  "\<exists>p. load_side_project (map_of [(example_text, example_project)]) (PStr example_text) PNone = Inr p"
proof -
  have l: "map_of [(example_text, example_project)] example_text = Some example_project"
    by simp
  have s: "project_shaped example_project"
    by (simp add: example_project_def absent_or_def)
  from load_succeeds_on_shaped_project
    [of "map_of [(example_text, example_project)]" example_text example_project PNone, OF l s]
  show ?thesis .
qed

text \<open>
  C3, as stated: when the raw name is absent and a default name is supplied, the project's
  name is that default name. It fails for the supplied default name \<^verbatim>\<open>""\<close>: the name is
  \<^verbatim>\<open>"Unnamed Project"\<close>.
\<close>

theorem project_name_counterexample:
  \<open>load_side_project (map_of [(''{}'', PDict [])]) (PStr ''{}'') (PStr '''') =
     Inr \<lparr>p_id = PStr '''', p_name = PStr ''Unnamed Project'', p_url = PNone,
          p_tests = [], p_suites = []\<rparr>\<close>
  by (simp add: load_side_project_def py_or_def)

text \<open>
  C3, amended: the project's name is the raw \<^verbatim>\<open>name\<close> when that is present and truthy
  (for a string: non-empty); otherwise the default name when that is supplied and truthy
  (for a string: non-empty); otherwise \<^verbatim>\<open>"Unnamed Project"\<close>. The witness runs the
  examples: raw name \<^verbatim>\<open>""\<close> with default \<^verbatim>\<open>"Fallback"\<close> gives \<^verbatim>\<open>"Fallback"\<close>, and neither a
  name nor a default gives \<^verbatim>\<open>"Unnamed Project"\<close>.
\<close>

theorem project_name_resolution:
  assumes "load_side_project json_loads (PStr text) d = Inr p"
    and "json_loads text = Some (PDict kvs)"
  shows "p_name p =
           (case map_of kvs ''name'' of
              Some v \<Rightarrow> if truthy v then v
                        else if truthy d then d else PStr ''Unnamed Project''
            | None \<Rightarrow> if truthy d then d else PStr ''Unnamed Project'')"
  using load_Inr [OF assms(1)] assms(2)
  by (auto simp add: py_or_def split: option.splits)

theorem project_name_resolution_witness:
  \<open>(\<exists>p. load_side_project (map_of [(''{"name": ""}'', PDict [(''name'', PStr '''')])])
           (PStr ''{"name": ""}'') (PStr ''Fallback'') = Inr p \<and> p_name p = PStr ''Fallback'') \<and>
   (\<exists>p. load_side_project (map_of [(''{}'', PDict [])]) (PStr ''{}'') PNone = Inr p \<and>
        p_name p = PStr ''Unnamed Project'') \<and>
   (\<exists>p. load_side_project (map_of [(''{"name": "Demo"}'', PDict [(''name'', PStr ''Demo'')])])
           (PStr ''{"name": "Demo"}'') (PStr ''Fallback'') = Inr p \<and> p_name p = PStr ''Demo'')\<close>
proof -
  let ?l1 = \<open>map_of [(''{"name": ""}'', PDict [(''name'', PStr '''')])]\<close>
  let ?p1 = "\<lparr>p_id = PStr '''', p_name = PStr ''Fallback'', p_url = PNone, p_tests = [], p_suites = []\<rparr>"
  have h1: \<open>load_side_project ?l1 (PStr ''{"name": ""}'') (PStr ''Fallback'') = Inr ?p1\<close>
    by (simp add: load_side_project_def py_or_def)
  have k1: \<open>?l1 ''{"name": ""}'' = Some (PDict [(''name'', PStr '''')])\<close> by simp
  let ?l2 = \<open>map_of [(''{}'', PDict [])]\<close>
  let ?p2 = "\<lparr>p_id = PStr '''', p_name = PStr ''Unnamed Project'', p_url = PNone, p_tests = [], p_suites = []\<rparr>"
  have h2: \<open>load_side_project ?l2 (PStr ''{}'') PNone = Inr ?p2\<close>
    by (simp add: load_side_project_def py_or_def)
  have k2: \<open>?l2 ''{}'' = Some (PDict [])\<close> by simp
  let ?l3 = \<open>map_of [(''{"name": "Demo"}'', PDict [(''name'', PStr ''Demo'')])]\<close>
  let ?p3 = "\<lparr>p_id = PStr '''', p_name = PStr ''Demo'', p_url = PNone, p_tests = [], p_suites = []\<rparr>"
  have h3: \<open>load_side_project ?l3 (PStr ''{"name": "Demo"}'') (PStr ''Fallback'') = Inr ?p3\<close>
    by (simp add: load_side_project_def py_or_def)
  have k3: \<open>?l3 ''{"name": "Demo"}'' = Some (PDict [(''name'', PStr ''Demo'')])\<close> by simp
  from project_name_resolution [OF h1 k1] have "p_name ?p1 = PStr ''Fallback''" by simp
  moreover from project_name_resolution [OF h2 k2] have "p_name ?p2 = PStr ''Unnamed Project''" by simp
  moreover from project_name_resolution [OF h3 k3] have "p_name ?p3 = PStr ''Demo''" by simp
  ultimately show ?thesis using h1 h2 h3 by blast
qed

text \<open>
  C10. When the raw \<^verbatim>\<open>name\<close> is absent or a string and the default name is absent or a
  string, the name of the loaded project is a non-empty string; when both are the empty
  string it is \<^verbatim>\<open>"Unnamed Project"\<close>.
\<close>

theorem project_name_nonempty:
  assumes "load_side_project json_loads (PStr text) d = Inr p"
    and "json_loads text = Some (PDict kvs)"
    and "map_of kvs ''name'' = None \<or> (\<exists>s. map_of kvs ''name'' = Some (PStr s))"
    and "d = PNone \<or> (\<exists>s. d = PStr s)"
  shows "(\<exists>s. p_name p = PStr s \<and> s \<noteq> []) \<and>
         (map_of kvs ''name'' = Some (PStr '''') \<and> d = PStr '''' \<longrightarrow>
            p_name p = PStr ''Unnamed Project'')"
  using load_Inr [OF assms(1)] assms(2-4)
  by (auto simp add: py_or_def)

theorem project_name_nonempty_witness:
  \<open>\<exists>p. load_side_project (map_of [(''{"name": ""}'', PDict [(''name'', PStr '''')])])
           (PStr ''{"name": ""}'') (PStr '''') = Inr p \<and> p_name p = PStr ''Unnamed Project''\<close>
proof -
  let ?l = \<open>map_of [(''{"name": ""}'', PDict [(''name'', PStr '''')])]\<close>
  let ?p = "\<lparr>p_id = PStr '''', p_name = PStr ''Unnamed Project'', p_url = PNone, p_tests = [], p_suites = []\<rparr>"
  have h: \<open>load_side_project ?l (PStr ''{"name": ""}'') (PStr '''') = Inr ?p\<close>
    by (simp add: load_side_project_def py_or_def)
  have k: \<open>?l ''{"name": ""}'' = Some (PDict [(''name'', PStr '''')])\<close> by simp
  have n: "map_of [(''name'', PStr '''')] ''name'' = None \<or>
           (\<exists>s. map_of [(''name'', PStr '''')] ''name'' = Some (PStr s))" by simp
  have e: "PStr '''' = PNone \<or> (\<exists>s. PStr '''' = PStr s)" by simp
  from project_name_nonempty [OF h k n e] have "p_name ?p = PStr ''Unnamed Project''" by simp
  with h show ?thesis by blast
qed

text \<open>
  C4. Let \<open>tests\<close> be the tests built from the raw \<^verbatim>\<open>tests\<close> list, in input order. For each
  of them the project's tests dictionary has exactly one entry under its id, and the value
  of that entry is the last test of the list with that id; every key of the dictionary is
  the id of a built test, and a key is in the dictionary exactly when some built test has
  it as id. Ids are compared the way a Python dictionary compares keys, which for strings
  is equality.
\<close>

theorem tests_map_last_write_wins:
  assumes "load_side_project json_loads (PStr text) d = Inr p"
    and "json_loads text = Some (PDict kvs)"
    and "py_iter (case map_of kvs ''tests'' of Some w \<Rightarrow> w | None \<Rightarrow> PList []) = Inr raw_tests"
    and "map_result build_test raw_tests = Inr tests"
  shows "(\<forall>t\<in>set tests.
            length (filter (\<lambda>kv. key_eq (fst kv) (t_id t)) (p_tests p)) = 1 \<and>
            (\<forall>kv\<in>set (p_tests p). key_eq (fst kv) (t_id t) \<longrightarrow>
               snd kv = last (filter (\<lambda>u. key_eq (t_id u) (t_id t)) tests)) \<and>
            dict_lookup (p_tests p) (t_id t) =
              Some (last (filter (\<lambda>u. key_eq (t_id u) (t_id t)) tests))) \<and>
         (\<forall>kv\<in>set (p_tests p). \<exists>t\<in>set tests. fst kv = t_id t) \<and>
         (\<forall>k. (\<exists>kv\<in>set (p_tests p). key_eq (fst kv) k) = (\<exists>t\<in>set tests. key_eq (t_id t) k))"
proof -
  let ?m = "p_tests p"
  have tm: "test_map_from [] tests = Inr ?m"
    using assms by (rule load_test_map)
  have dist: "distinct (map (\<lambda>kv. key_norm (fst kv)) ?m)"
    using test_map_from_distinct [OF tm] by simp
  have one: "\<forall>t\<in>set tests.
            length (filter (\<lambda>kv. key_eq (fst kv) (t_id t)) ?m) = 1 \<and>
            (\<forall>kv\<in>set ?m. key_eq (fst kv) (t_id t) \<longrightarrow>
               snd kv = last (filter (\<lambda>u. key_eq (t_id u) (t_id t)) tests)) \<and>
            dict_lookup ?m (t_id t) =
              Some (last (filter (\<lambda>u. key_eq (t_id u) (t_id t)) tests))"
  proof
    fix t assume t: "t \<in> set tests"
    let ?v = "last (filter (\<lambda>u. key_eq (t_id u) (t_id t)) tests)"
    have lk: "dict_lookup ?m (t_id t) = Some ?v"
      using tm t by (rule test_map_lookup_last)
    from dict_lookup_Some [OF lk] obtain k' where "key_eq k' (t_id t)" and "(k', ?v) \<in> set ?m"
      by blast
    then have "(k', ?v) \<in> set (filter (\<lambda>kv. key_eq (fst kv) (t_id t)) ?m)" by simp
    then have "filter (\<lambda>kv. key_eq (fst kv) (t_id t)) ?m \<noteq> []"
      by (metis empty_iff empty_set)
    then have "0 < length (filter (\<lambda>kv. key_eq (fst kv) (t_id t)) ?m)"
      by (metis length_greater_0_conv)
    with filter_key_le1 [OF dist, of "t_id t"]
    have len: "length (filter (\<lambda>kv. key_eq (fst kv) (t_id t)) ?m) = 1" by linarith
    have ent: "\<forall>kv\<in>set ?m. key_eq (fst kv) (t_id t) \<longrightarrow> snd kv = ?v"
    proof (intro ballI impI)
      fix kv assume kv: "kv \<in> set ?m" and e: "key_eq (fst kv) (t_id t)"
      from kv have "(fst kv, snd kv) \<in> set ?m" by simp
      from dict_lookup_entry [OF dist this] have "dict_lookup ?m (fst kv) = Some (snd kv)" .
      with dict_lookup_key_eq [OF e, of ?m] lk show "snd kv = ?v" by simp
    qed
    from len ent lk
    show "length (filter (\<lambda>kv. key_eq (fst kv) (t_id t)) ?m) = 1 \<and>
          (\<forall>kv\<in>set ?m. key_eq (fst kv) (t_id t) \<longrightarrow> snd kv = ?v) \<and>
          dict_lookup ?m (t_id t) = Some ?v"
      by blast
  qed
  have keys: "\<forall>kv\<in>set ?m. \<exists>t\<in>set tests. fst kv = t_id t"
    using test_map_from_keys [OF tm] by auto
  have same: "\<forall>k. (\<exists>kv\<in>set ?m. key_eq (fst kv) k) = (\<exists>t\<in>set tests. key_eq (t_id t) k)"
    using test_map_has_key [OF tm] by blast
  from one keys same show ?thesis by blast
qed

theorem tests_map_last_write_wins_witness:
  \<open>\<exists>p. load_side_project
          (map_of [(''{"tests":[{"id":"t1","name":"A"},{"id":"t2"},{"id":"t1","name":"B"}]}'',
                    PDict [(''tests'', PList [PDict [(''id'', PStr ''t1''), (''name'', PStr ''A'')],
                                              PDict [(''id'', PStr ''t2'')],
                                              PDict [(''id'', PStr ''t1''), (''name'', PStr ''B'')]])])])
          (PStr ''{"tests":[{"id":"t1","name":"A"},{"id":"t2"},{"id":"t1","name":"B"}]}'') PNone = Inr p \<and>
        map fst (p_tests p) = [PStr ''t1'', PStr ''t2''] \<and>
        length (filter (\<lambda>kv. key_eq (fst kv) (PStr ''t1'')) (p_tests p)) = 1 \<and>
        dict_lookup (p_tests p) (PStr ''t1'') =
          Some \<lparr>t_id = PStr ''t1'', t_name = PStr ''B'', t_commands = []\<rparr>\<close>
proof -
  let ?text = \<open>''{"tests":[{"id":"t1","name":"A"},{"id":"t2"},{"id":"t1","name":"B"}]}''\<close>
  let ?raws = "[PDict [(''id'', PStr ''t1''), (''name'', PStr ''A'')],
                PDict [(''id'', PStr ''t2'')],
                PDict [(''id'', PStr ''t1''), (''name'', PStr ''B'')]]"
  let ?kvs = "[(''tests'', PList ?raws)]"
  let ?loads = "map_of [(?text, PDict ?kvs)]"
  let ?a = "\<lparr>t_id = PStr ''t1'', t_name = PStr ''A'', t_commands = []\<rparr>"
  let ?b = "\<lparr>t_id = PStr ''t1'', t_name = PStr ''B'', t_commands = []\<rparr>"
  let ?c = "\<lparr>t_id = PStr ''t2'', t_name = PStr '''', t_commands = []\<rparr>"
  let ?p = "\<lparr>p_id = PStr '''', p_name = PStr ''Unnamed Project'', p_url = PNone,
             p_tests = [(PStr ''t1'', ?b), (PStr ''t2'', ?c)], p_suites = []\<rparr>"
  have h1: "load_side_project ?loads (PStr ?text) PNone = Inr ?p"
    by (simp add: load_side_project_def build_test_def py_or_def key_eq_def)
  have h2: "?loads ?text = Some (PDict ?kvs)" by simp
  have h3: "py_iter (case map_of ?kvs ''tests'' of Some w \<Rightarrow> w | None \<Rightarrow> PList []) = Inr ?raws"
    by simp
  have h4: "map_result build_test ?raws = Inr [?a, ?c, ?b]"
    by (simp add: build_test_def)
  note r = tests_map_last_write_wins [of ?loads ?text PNone ?p ?kvs ?raws "[?a, ?c, ?b]", OF h1 h2 h3 h4]
  have "?a \<in> set [?a, ?c, ?b]" by simp
  with r have "length (filter (\<lambda>kv. key_eq (fst kv) (t_id ?a)) (p_tests ?p)) = 1"
    and "dict_lookup (p_tests ?p) (t_id ?a) =
           Some (last (filter (\<lambda>u. key_eq (t_id u) (t_id ?a)) [?a, ?c, ?b]))"
    by blast+
  then have "length (filter (\<lambda>kv. key_eq (fst kv) (PStr ''t1'')) (p_tests ?p)) = 1"
    and "dict_lookup (p_tests ?p) (PStr ''t1'') = Some ?b"
    by (simp_all add: key_eq_def)
  with h1 show ?thesis by (intro exI [of _ ?p]) simp
qed




end
